theory Spec2Isabelle
  imports Main
begin

section \<open>JavaScript values shared by the webhook receiver and the page objects\<close>

text \<open>
  A thrown JavaScript error object, reduced to the two properties the code reads or a
  caller can discriminate on: \<open>name\<close> (\<open>Error\<close> for \<open>new Error(msg)\<close>, \<open>TypeError\<close> for a
  property read on \<open>undefined\<close>, \<open>TimeoutError\<close> for a browser-driver timeout) and
  \<open>message\<close>.
\<close>

datatype js_error = JsError (err_name: string) (err_message: string)

datatype level = Info | Warn | Err

text \<open>
  Everything a function does besides returning: the calls it makes on the browser and the
  lines it hands to the logger, in program order.
\<close>

datatype locator =
    Css string
  | ByRole string string
  | First locator
  | Nth locator nat
  | Within locator string

datatype event =
    Screenshot string
  | Evaluate
  | Count locator
  | IsVisible locator
  | Click locator
  | WaitForLoadState
  | WaitForSelector string
  | ReadUrl
  | Log level string

text \<open>
  A value produced by \<open>JSON.parse\<close>. A number is kept as the text \<open>Number::toString\<close>
  gives for it, the only thing the handlers read from it. An object is the list of its own
  properties; \<open>undefined\<close> (a missing property) is \<open>None\<close> of \<open>json option\<close>.
\<close>

datatype json =
    JNull
  | JBool bool
  | JNum string
  | JStr string
  | JArr "json list"
  | JObj "(string \<times> json) list"

text \<open>
  \<open>v.k\<close> for a property name \<open>k\<close> that no built-in prototype defines (the handlers
  read \<open>testResults\<close>, \<open>buildId\<close>, \<open>runId\<close>, \<open>summary\<close>, \<open>repository\<close>, \<open>branch\<close>,
  \<open>commit\<close>, \<open>action\<close>): a TypeError on \<open>undefined\<close> and \<open>null\<close>, the own property of an
  object, \<open>undefined\<close> on every other value.
\<close>

fun get_prop :: "json option \<Rightarrow> string \<Rightarrow> js_error + json option" where
  "get_prop None k =
     Inl (JsError ''TypeError'' (''Cannot read properties of undefined (reading '' @ CHR 0x27 # k @ [CHR 0x27] @ '')''))"
| "get_prop (Some JNull) k =
     Inl (JsError ''TypeError'' (''Cannot read properties of null (reading '' @ CHR 0x27 # k @ [CHR 0x27] @ '')''))"
| "get_prop (Some (JObj kvs)) k = Inr (map_of kvs k)"
| "get_prop (Some v) k = Inr None"

text \<open>
  ECMAScript \<open>ToString\<close>, as a template literal applies it to a parsed JSON value. An
  array joins its elements with commas, \<open>null\<close> elements rendering empty. A plain object
  renders through \<open>Object.prototype.toString\<close>, unless an own property \<open>toString\<close> (never
  callable in parsed JSON) shadows it: then no method yields a primitive and the
  conversion throws.
\<close>

fun js_ToString :: "json \<Rightarrow> js_error + string"
  and js_join :: "json list \<Rightarrow> js_error + string" where
  "js_ToString JNull = Inr ''null''"
| "js_ToString (JBool b) = Inr (if b then ''true'' else ''false'')"
| "js_ToString (JNum n) = Inr n"
| "js_ToString (JStr s) = Inr s"
| "js_ToString (JArr xs) = js_join xs"
| "js_ToString (JObj kvs) =
     (if map_of kvs ''toString'' = None then Inr ''[object Object]''
      else Inl (JsError ''TypeError'' ''Cannot convert object to primitive value''))"
| "js_join [] = Inr []"
| "js_join (x # xs) =
     (case (if x = JNull then Inr [] else js_ToString x) of
        Inl e \<Rightarrow> Inl e
      | Inr a \<Rightarrow>
          (if xs = [] then Inr a
           else (case js_join xs of Inl e \<Rightarrow> Inl e | Inr r \<Rightarrow> Inr (a @ '','' @ r))))"

definition interpolate :: "json option \<Rightarrow> js_error + string" where
  "interpolate v = (case v of None \<Rightarrow> Inr ''undefined'' | Some j \<Rightarrow> js_ToString j)"


section \<open>Webhook receiver (ui/webhooks/server.js)\<close>

text \<open>
  \<open>verifySignature\<close>. \<open>createHmac('sha256', secret).update(text).digest('hex')\<close> and
  \<open>JSON.stringify\<close> belong to the runtime, not to the repository: they are the parameters
  \<open>hmac_hex\<close> and \<open>stringify\<close>. The secret is the module constant \<open>WEBHOOK_SECRET\<close>, read
  from the environment.
\<close>

definition verifySignature ::
  "(string \<Rightarrow> string \<Rightarrow> string) \<Rightarrow> (json \<Rightarrow> string) \<Rightarrow> string \<Rightarrow> string \<Rightarrow> json \<Rightarrow> bool" where
  "verifySignature hmac_hex stringify secret signature payload =
     (let digest = ''sha256='' @ hmac_hex secret (stringify payload)
      in signature = digest)"

record request =
  x_webhook_signature :: "string option"
  req_body :: json

record response =
  status :: nat
  res_json :: json

text \<open>
  \<open>!signature || !verifySignature(signature, req.body)\<close>: a missing header is
  \<open>undefined\<close>, and the empty string is falsy as well.
\<close>

definition signature_rejected ::
  "(string \<Rightarrow> string \<Rightarrow> string) \<Rightarrow> (json \<Rightarrow> string) \<Rightarrow> string \<Rightarrow> request \<Rightarrow> bool" where
  "signature_rejected hmac_hex stringify secret req =
     (case x_webhook_signature req of
        None \<Rightarrow> True
      | Some signature \<Rightarrow>
          signature = [] \<or> \<not> verifySignature hmac_hex stringify secret signature (req_body req))"

definition invalid_signature :: "event list \<times> (js_error + response)" where
  "invalid_signature =
     ([Log Warn ''Invalid webhook signature''],
      Inr \<lparr>status = 401, res_json = JObj [(''error'', JStr ''Invalid signature'')]\<rparr>)"

definition success :: response where
  "success = \<lparr>status = 200, res_json = JObj [(''status'', JStr ''success'')]\<rparr>"

text \<open>
  Sequencing inside a handler: \<open>and_then\<close> evaluates an expression that may throw and
  hands its value on; \<open>logged\<close> is a logger call followed by the rest of the handler.
\<close>

definition and_then ::
  "js_error + 'a \<Rightarrow> ('a \<Rightarrow> event list \<times> (js_error + 'b)) \<Rightarrow> event list \<times> (js_error + 'b)" where
  "and_then x k = (case x of Inl e \<Rightarrow> ([], Inl e) | Inr v \<Rightarrow> k v)"

definition logged ::
  "event \<Rightarrow> event list \<times> (js_error + 'b) \<Rightarrow> event list \<times> (js_error + 'b)" where
  "logged line rest = (line # fst rest, snd rest)"

text \<open>
  The handler of \<open>POST /webhook/test-results\<close>. The result is what the handler logged
  and either the response it sent or the error it threw before sending one (which the
  framework's error handler, not this code, turns into a 500).
\<close>

definition post_test_results ::
  "(string \<Rightarrow> string \<Rightarrow> string) \<Rightarrow> (json \<Rightarrow> string) \<Rightarrow> string \<Rightarrow> request
     \<Rightarrow> event list \<times> (js_error + response)" where
  "post_test_results hmac_hex stringify secret req =
     (if signature_rejected hmac_hex stringify secret req then invalid_signature
      else
        and_then (get_prop (Some (req_body req)) ''testResults'') (\<lambda>testResults.
        and_then (get_prop (Some (req_body req)) ''buildId'') (\<lambda>buildId.
        and_then (get_prop (Some (req_body req)) ''runId'') (\<lambda>runId.
        and_then (interpolate buildId) (\<lambda>b.
        and_then (interpolate runId) (\<lambda>r.
        logged (Log Info (''Received test results webhook for build '' @ b @ '', run '' @ r)) (
        and_then (get_prop testResults ''summary'') (\<lambda>summary.
        and_then (interpolate summary) (\<lambda>sm.
        logged (Log Info (''Test summary: '' @ sm)) (
        [], Inr success))))))))))"

text \<open>The handler of \<open>POST /webhook/ci-trigger\<close>.\<close>

definition post_ci_trigger ::
  "(string \<Rightarrow> string \<Rightarrow> string) \<Rightarrow> (json \<Rightarrow> string) \<Rightarrow> string \<Rightarrow> request
     \<Rightarrow> event list \<times> (js_error + response)" where
  "post_ci_trigger hmac_hex stringify secret req =
     (if signature_rejected hmac_hex stringify secret req then invalid_signature
      else
        and_then (get_prop (Some (req_body req)) ''repository'') (\<lambda>repository.
        and_then (get_prop (Some (req_body req)) ''branch'') (\<lambda>branch.
        and_then (get_prop (Some (req_body req)) ''commit'') (\<lambda>commit.
        and_then (get_prop (Some (req_body req)) ''action'') (\<lambda>action.
        and_then (interpolate repository) (\<lambda>rp.
        and_then (interpolate branch) (\<lambda>br.
        and_then (interpolate commit) (\<lambda>cm.
        logged (Log Info (''Received CI trigger webhook for '' @ rp @ ''/'' @ br @ '' ('' @ cm @ '')'')) (
        and_then (interpolate action) (\<lambda>ac.
        logged (Log Info (''Action: '' @ ac)) (
        [], Inr success)))))))))))"

text \<open>The handler of \<open>GET /health\<close>.\<close>

definition get_health :: "request \<Rightarrow> event list \<times> (js_error + response)" where
  "get_health req = ([], Inr \<lparr>status = 200, res_json = JObj [(''status'', JStr ''healthy'')]\<rparr>)"


section \<open>The browser, as the page objects see it\<close>

text \<open>
  The browser-automation library is outside the repository. The page objects use it
  through a handful of calls, each of which can reject with an error; \<open>'s\<close> is the state
  of the live page, whatever it is. Only a click moves the page to a new state; the other
  calls read it.
\<close>

record 's browser =
  pw_screenshot :: "'s \<Rightarrow> string \<Rightarrow> js_error + unit"
  pw_innerText :: "'s \<Rightarrow> js_error + string"
  pw_count :: "'s \<Rightarrow> locator \<Rightarrow> js_error + nat"
  pw_isVisible :: "'s \<Rightarrow> locator \<Rightarrow> js_error + bool"
  pw_click :: "'s \<Rightarrow> locator \<Rightarrow> js_error + 's"
  pw_waitForLoadState :: "'s \<Rightarrow> string \<Rightarrow> js_error + unit"
  pw_waitForSelector :: "'s \<Rightarrow> string \<Rightarrow> js_error + unit"
  pw_url :: "'s \<Rightarrow> string"

text \<open>
  An \<open>async\<close> function: from the page state to the state it leaves, what it did on the
  way, and its rejection or its value.
\<close>

type_synonym ('s, 'a) io = "'s \<Rightarrow> 's \<times> event list \<times> (js_error + 'a)"

definition io_return :: "'a \<Rightarrow> ('s, 'a) io" where
  "io_return a = (\<lambda>s. (s, [], Inr a))"

definition io_throw :: "js_error \<Rightarrow> ('s, 'a) io" where
  "io_throw e = (\<lambda>s. (s, [], Inl e))"

text \<open>The three parts of a run.\<close>

definition final_state :: "'s \<times> event list \<times> (js_error + 'a) \<Rightarrow> 's" where
  "final_state run = fst run"

definition trace :: "'s \<times> event list \<times> (js_error + 'a) \<Rightarrow> event list" where
  "trace run = fst (snd run)"

definition outcome :: "'s \<times> event list \<times> (js_error + 'a) \<Rightarrow> js_error + 'a" where
  "outcome run = snd (snd run)"

text \<open>\<open>const x = await m; k(x)\<close>: a rejection of \<open>m\<close> skips \<open>k\<close>.\<close>

definition await :: "('s, 'a) io \<Rightarrow> ('a \<Rightarrow> ('s, 'b) io) \<Rightarrow> ('s, 'b) io" where
  "await m k = (\<lambda>s.
     case m s of
       (s1, t1, Inl e) \<Rightarrow> (s1, t1, Inl e)
     | (s1, t1, Inr a) \<Rightarrow> (case k a s1 of (s2, t2, r) \<Rightarrow> (s2, t1 @ t2, r)))"

text \<open>\<open>try { m } catch (error) { h(error) }\<close>, and \<open>m.catch(error => h(error))\<close>.\<close>

definition try_catch :: "('s, 'a) io \<Rightarrow> (js_error \<Rightarrow> ('s, 'a) io) \<Rightarrow> ('s, 'a) io" where
  "try_catch m h = (\<lambda>s.
     case m s of
       (s1, t1, Inl e) \<Rightarrow> (case h e s1 of (s2, t2, r) \<Rightarrow> (s2, t1 @ t2, r))
     | (s1, t1, Inr a) \<Rightarrow> (s1, t1, Inr a))"

text \<open>\<open>m.catch(() => d)\<close>.\<close>

definition or_else :: "('s, 'a) io \<Rightarrow> 'a \<Rightarrow> ('s, 'a) io" where
  "or_else m d = try_catch m (\<lambda>error. io_return d)"

definition log :: "level \<Rightarrow> string \<Rightarrow> ('s, unit) io" where
  "log lvl msg = (\<lambda>s. (s, [Log lvl msg], Inr ()))"

definition screenshot :: "'s browser \<Rightarrow> string \<Rightarrow> ('s, unit) io" where
  "screenshot b path = (\<lambda>s. (s, [Screenshot path], pw_screenshot b s path))"

definition count :: "'s browser \<Rightarrow> locator \<Rightarrow> ('s, nat) io" where
  "count b loc = (\<lambda>s. (s, [Count loc], pw_count b s loc))"

definition visible :: "'s browser \<Rightarrow> locator \<Rightarrow> ('s, bool) io" where
  "visible b loc = (\<lambda>s. (s, [IsVisible loc], pw_isVisible b s loc))"

definition click :: "'s browser \<Rightarrow> locator \<Rightarrow> ('s, unit) io" where
  "click b loc = (\<lambda>s.
     case pw_click b s loc of
       Inl e \<Rightarrow> (s, [Click loc], Inl e)
     | Inr s' \<Rightarrow> (s', [Click loc], Inr ()))"

definition waitForLoadState :: "'s browser \<Rightarrow> string \<Rightarrow> ('s, unit) io" where
  "waitForLoadState b st = (\<lambda>s. (s, [WaitForLoadState], pw_waitForLoadState b s st))"

definition waitForSelector :: "'s browser \<Rightarrow> string \<Rightarrow> ('s, unit) io" where
  "waitForSelector b sel = (\<lambda>s. (s, [WaitForSelector sel], pw_waitForSelector b s sel))"

definition url :: "'s browser \<Rightarrow> ('s, string) io" where
  "url b = (\<lambda>s. (s, [ReadUrl], Inr (pw_url b s)))"


text \<open>What \<open>loc.isVisible().catch(() => false)\<close> comes to: the probe answered \<open>true\<close>.\<close>

definition reports_visible :: "'s browser \<Rightarrow> 's \<Rightarrow> locator \<Rightarrow> bool" where
  "reports_visible b s loc = (pw_isVisible b s loc = Inr True)"


section \<open>Strings\<close>

text \<open>
  \<open>String.prototype.includes\<close>, \<open>endsWith\<close> and \<open>Array.prototype.join\<close>. Page text is
  taken over the Latin-1 code points, the characters of \<open>string\<close>; on them
  \<open>toLowerCase\<close> moves \<open>A\<close>-\<open>Z\<close> and the accented capitals (all of 192-222 but the
  multiplication sign 215) up by 32 and leaves the rest.
\<close>

fun startsWith :: "string \<Rightarrow> string \<Rightarrow> bool" where
  "startsWith s [] = True"
| "startsWith [] (c # cs) = False"
| "startsWith (d # ds) (c # cs) = (d = c \<and> startsWith ds cs)"

fun str_includes :: "string \<Rightarrow> string \<Rightarrow> bool" where
  "str_includes [] needle = (needle = [])"
| "str_includes (c # cs) needle = (startsWith (c # cs) needle \<or> str_includes cs needle)"

definition endsWith :: "string \<Rightarrow> string \<Rightarrow> bool" where
  "endsWith s suffix = startsWith (rev s) (rev suffix)"

definition lower_char :: "char \<Rightarrow> char" where
  "lower_char c =
     (let n = (of_char c :: nat) in
      if (65 \<le> n \<and> n \<le> 90) \<or> (192 \<le> n \<and> n \<le> 222 \<and> n \<noteq> 215)
      then char_of (n + 32) else c)"

definition toLowerCase :: "string \<Rightarrow> string" where
  "toLowerCase s = map lower_char s"

fun join :: "string \<Rightarrow> string list \<Rightarrow> string" where
  "join sep [] = []"
| "join sep [x] = x"
| "join sep (x # y # ys) = x @ sep @ join sep (y # ys)"

fun show_nat :: "nat \<Rightarrow> string" where
  "show_nat n =
     (if n < 10 then [char_of (48 + n)]
      else show_nat (n div 10) @ [char_of (48 + n mod 10)])"


section \<open>BasePage (ui/pages/BasePage.js)\<close>

text \<open>\<open>waitForPageLoad\<close>: only the wait for the load event is outside the \<open>try\<close>.\<close>

definition waitForPageLoad :: "'s browser \<Rightarrow> ('s, unit) io" where
  "waitForPageLoad b =
     await (waitForLoadState b ''load'') (\<lambda>_.
     try_catch
       (await (waitForSelector b ''body'') (\<lambda>_.
        await (or_else (waitForSelector b ''nav'') ()) (\<lambda>_.
        or_else (waitForSelector b ''header'') ())))
       (\<lambda>error. log Warn ''Could not wait for page to fully stabilize''))"

text \<open>
  The \<open>for\<close> loop of \<open>isVisible\<close> over the indices it is given: \<open>True\<close> at the first
  element that reports visible, \<open>False\<close> when the indices run out.
\<close>

fun isVisible_loop :: "'s browser \<Rightarrow> locator \<Rightarrow> nat list \<Rightarrow> ('s, bool) io" where
  "isVisible_loop b loc [] = io_return False"
| "isVisible_loop b loc (i # rest) =
     await (or_else (visible b (Nth loc i)) False) (\<lambda>isVisible.
     if isVisible then io_return True else isVisible_loop b loc rest)"

definition isVisible :: "'s browser \<Rightarrow> locator \<Rightarrow> ('s, bool) io" where
  "isVisible b loc =
     try_catch
       (await (or_else (count b loc) 0) (\<lambda>n.
        if n > 1 then isVisible_loop b loc [0..<n]
        else if n = 1 then or_else (visible b loc) False
        else io_return False))
       (\<lambda>error.
        await (log Warn (''Error checking visibility: '' @ err_message error)) (\<lambda>_.
        io_return False))"

text \<open>The callback \<open>acceptCookies\<close> evaluates in the page, on \<open>document.body.innerText\<close>.\<close>

definition hasCookieBanner :: "string \<Rightarrow> bool" where
  "hasCookieBanner innerText =
     (str_includes (toLowerCase innerText) ''cookie'' \<or>
      str_includes (toLowerCase innerText) ''consent'' \<or>
      str_includes (toLowerCase innerText) ''privacy'')"

definition evaluate_hasCookieBanner :: "'s browser \<Rightarrow> ('s, bool) io" where
  "evaluate_hasCookieBanner b = (\<lambda>s.
     (s, [Evaluate],
      case pw_innerText b s of Inl e \<Rightarrow> Inl e | Inr innerText \<Rightarrow> Inr (hasCookieBanner innerText)))"

text \<open>\<open>await loc.click().catch(e => logger.warn(`<msg>: ${e.message}`))\<close>.\<close>

definition click_or_warn :: "'s browser \<Rightarrow> locator \<Rightarrow> string \<Rightarrow> ('s, unit) io" where
  "click_or_warn b loc msg =
     try_catch (click b loc) (\<lambda>e. log Warn (msg @ '': '' @ err_message e))"

definition dataAttrButton :: locator where
  \<open>dataAttrButton = First (Css ''[data-cky-tag="accept-button"]'')\<close>

definition buttonsByRole :: locator where
  "buttonsByRole = ByRole ''button'' ''/Accept|Accept All|OK|Agree/i''"

definition cookieBanners :: "string list" where
  "cookieBanners =
     [''.cookie-banner'', ''.cookie-consent'', ''.cookie-notice'', ''.gdpr-banner'',
      ''.cky-consent-container'']"

definition acceptButton_in :: "locator \<Rightarrow> locator" where
  \<open>acceptButton_in banner =
     First (Within banner
       ''button:has-text("Accept"), button:has-text("OK"), button:has-text("Agree")'')\<close>

text \<open>
  The three \<open>try\<close> blocks of \<open>acceptCookies\<close>. Each yields \<open>True\<close> when it has executed
  the \<open>return\<close> of the function, \<open>False\<close> when control runs on to the next block.
\<close>

definition method1 :: "'s browser \<Rightarrow> ('s, bool) io" where
  "method1 b =
     await (or_else (visible b dataAttrButton) False) (\<lambda>isDataAttrVisible.
     if isDataAttrVisible then
       await (log Info ''Found cookie accept button with data attribute'') (\<lambda>_.
       await (click_or_warn b dataAttrButton ''Failed to click button with data attribute'') (\<lambda>_.
       io_return True))
     else io_return False)"

definition method2 :: "'s browser \<Rightarrow> ('s, bool) io" where
  "method2 b =
     await (count b buttonsByRole) (\<lambda>n.
     if n > 0 then
       await (log Info (''Found '' @ show_nat n @ '' possible cookie consent buttons'')) (\<lambda>_.
       await (click_or_warn b (Nth buttonsByRole 0) ''Failed to click button by role'') (\<lambda>_.
       io_return True))
     else io_return False)"

fun method3 :: "'s browser \<Rightarrow> string list \<Rightarrow> ('s, bool) io" where
  "method3 b [] = io_return False"
| "method3 b (selector # rest) =
     await (or_else (visible b (First (Css selector))) False) (\<lambda>isBannerVisible.
     if isBannerVisible then
       await (log Info (''Found cookie banner with selector: '' @ selector)) (\<lambda>_.
       await (click_or_warn b (acceptButton_in (First (Css selector)))
                ''Found banner but failed to click accept button'') (\<lambda>_.
       io_return True))
     else method3 b rest)"

definition acceptCookies :: "'s browser \<Rightarrow> ('s, unit) io" where
  "acceptCookies b =
     await (log Info ''Attempting to handle cookie consent if present'') (\<lambda>_.
     await (screenshot b ''./ui/reports/screenshots/before-cookie-handling.png'') (\<lambda>_.
     await (evaluate_hasCookieBanner b) (\<lambda>hasBanner.
     if \<not> hasBanner then
       log Info ''No cookie banner detected on page - skipping cookie handling''
     else
       await (try_catch (method1 b) (\<lambda>error.
                await (log Warn (''Method 1 failed: '' @ err_message error)) (\<lambda>_.
                io_return False))) (\<lambda>returned1.
       if returned1 then io_return () else
       await (try_catch (method2 b) (\<lambda>error.
                await (log Warn (''Method 2 failed: '' @ err_message error)) (\<lambda>_.
                io_return False))) (\<lambda>returned2.
       if returned2 then io_return () else
       await (try_catch (method3 b cookieBanners) (\<lambda>error.
                await (log Warn (''Method 3 failed: '' @ err_message error)) (\<lambda>_.
                io_return False))) (\<lambda>returned3.
       if returned3 then io_return () else
       log Info ''Completed cookie handling attempts - continuing with test''))))))"


section \<open>HomePage (ui/pages/HomePage.js)\<close>

text \<open>
  The fields of the page object that the operations below read. A field of a JavaScript
  object can be \<open>undefined\<close>, which \<open>clickEnterPlatform\<close> tests for; the constructor
  assigns both.
\<close>

record homePage =
  angelCardLogo :: locator
  enterPlatformButton :: "locator option"

definition HomePage :: homePage where
  \<open>HomePage =
     \<lparr>angelCardLogo = First (Css ''img''),
      enterPlatformButton = Some (First (Css
        ''a:has-text("Enter Platform"), button:has-text("Enter Platform"), a:has-text("Enter"), button:has-text("Enter")''))\<rparr>\<close>

definition possibleButtons :: "locator list" where
  \<open>possibleButtons =
     [First (ByRole ''link'' ''/enter/i''),
      First (ByRole ''button'' ''/enter/i''),
      First (Css ''a:has-text("Enter"), button:has-text("Enter")'')]\<close>

text \<open>
  The loop shared by \<open>clickEnterPlatform\<close> and \<open>clickContinueWithEmail\<close>: click the first
  candidate that reports visible, wait for the page, and return from the function
  (\<open>True\<close>); \<open>False\<close> when the candidates run out. The click and the wait are not guarded.
\<close>

fun click_first_visible :: "'s browser \<Rightarrow> locator list \<Rightarrow> ('s, bool) io" where
  "click_first_visible b [] = io_return False"
| "click_first_visible b (button # rest) =
     await (or_else (visible b button) False) (\<lambda>v.
     if v then
       await (click b button) (\<lambda>_.
       await (waitForPageLoad b) (\<lambda>_.
       io_return True))
     else click_first_visible b rest)"

definition clickEnterPlatform :: "'s browser \<Rightarrow> homePage \<Rightarrow> ('s, unit) io" where
  "clickEnterPlatform b this =
     (case enterPlatformButton this of
        None \<Rightarrow>
          await (click_first_visible b possibleButtons) (\<lambda>returned.
          if returned then io_return ()
          else io_throw (JsError ''Error'' ''Enter Platform button not found on page''))
      | Some button \<Rightarrow>
          await (click b button) (\<lambda>_.
          waitForPageLoad b))"

text \<open>
  The two patterns \<open>clickAngelCardLogo\<close> matches the URL against, \<open>/.*angelcard\.us\/?$/\<close>
  and \<open>/.*angelcard\.us\/$/\<close>. Neither is anchored at the start and \<open>.*\<close> may match
  nothing, so a URL matches when it ends in the literal text.
\<close>

definition matches_root_optional_slash :: "string \<Rightarrow> bool" where
  "matches_root_optional_slash u = (endsWith u ''angelcard.us'' \<or> endsWith u ''angelcard.us/'')"

definition matches_root_slash :: "string \<Rightarrow> bool" where
  "matches_root_slash u = endsWith u ''angelcard.us/''"

definition clickAngelCardLogo :: "'s browser \<Rightarrow> homePage \<Rightarrow> ('s, bool) io" where
  "clickAngelCardLogo b this =
     await (or_else (visible b (angelCardLogo this)) False) (\<lambda>isLogoVisible.
     if \<not> isLogoVisible then
       io_throw (JsError ''Error'' ''AngelCard logo is not visible on the page'')
     else
       await (click b (angelCardLogo this)) (\<lambda>_.
       await (waitForPageLoad b) (\<lambda>_.
       await (url b) (\<lambda>currentUrl.
       if matches_root_optional_slash currentUrl \<or> matches_root_slash currentUrl
       then io_return True
       else io_return False))))"




section \<open>PlatformPage (ui/pages/PlatformPage.js)\<close>

definition continueWithEmailButton :: locator where
  \<open>continueWithEmailButton = Css (join '',''
     [''a:has-text("Continue with Email")'',
      ''button:has-text("Email")'',
      ''a:has-text("Email")'',
      ''a:has-text("Sign in with Email")'',
      ''button:has-text("Sign in with Email")'',
      ''a[href*="email"], button[class*="email"]''])\<close>

definition continueWithGoogleButton :: locator where
  \<open>continueWithGoogleButton = Css (join '',''
     [''a:has-text("Continue with Google")'',
      ''button:has-text("Google")'',
      ''a:has-text("Google")'',
      ''a:has-text("Sign in with Google")'',
      ''button:has-text("Sign in with Google")'',
      ''a[href*="google"], button[class*="google"]''])\<close>

definition continueWithAppleButton :: locator where
  \<open>continueWithAppleButton = Css (join '',''
     [''a:has-text("Continue with Apple")'',
      ''button:has-text("Apple")'',
      ''a:has-text("Apple")'',
      ''a:has-text("Sign in with Apple")'',
      ''button:has-text("Sign in with Apple")'',
      ''a[href*="apple"], button[class*="apple"]''])\<close>

definition cookieConsentContainer :: locator where
  \<open>cookieConsentContainer = Css (join '',''
     [''[role="region"][aria-label="We value your privacy"]'',
      ''[class*="cookie"]'',
      ''[id*="cookie"]'',
      ''[class*="consent"]'',
      ''[id*="consent"]''])\<close>

definition alternativeSelectors :: "string list" where
  \<open>alternativeSelectors =
     [''form input[type="email"]'',
      ''a:has-text(/sign.?in/i)'',
      ''a:has-text(/log.?in/i)'',
      ''button:has-text(/sign.?in/i)'',
      ''button:has-text(/log.?in/i)'',
      ''a:has-text(/register/i)'',
      ''button:has-text(/register/i)'']\<close>

definition clickContinueWithEmail :: "'s browser \<Rightarrow> ('s, unit) io" where
  "clickContinueWithEmail b =
     try_catch
       (await (or_else (visible b continueWithEmailButton) False) (\<lambda>isVisible.
        if isVisible then
          await (click b continueWithEmailButton) (\<lambda>_.
          waitForPageLoad b)
        else
          await (click_first_visible b (map (\<lambda>selector. First (Css selector)) alternativeSelectors))
            (\<lambda>returned.
          if returned then io_return ()
          else io_throw (JsError ''Error'' ''Could not find email login option''))))
       (\<lambda>error.
        await (log Err (''Error in clickContinueWithEmail: '' @ err_message error)) (\<lambda>_.
        io_throw error))"

text \<open>
  The \<open>for\<close> loop of \<open>isCookieConsentVisible\<close> over the indices below
  \<open>Math.min(count, 5)\<close>, each probe inside its own \<open>try\<close>.
\<close>

fun consent_loop :: "'s browser \<Rightarrow> nat list \<Rightarrow> ('s, bool) io" where
  "consent_loop b [] = io_return False"
| "consent_loop b (i # rest) =
     await (try_catch (or_else (visible b (Nth cookieConsentContainer i)) False)
              (\<lambda>error. io_return False)) (\<lambda>v.
     if v then io_return True else consent_loop b rest)"

definition consentAcceptButton :: locator where
  \<open>consentAcceptButton =
     First (Css ''[data-cky-tag="accept-button"], button:has-text("Accept")'')\<close>

definition isCookieConsentVisible :: "'s browser \<Rightarrow> ('s, bool) io" where
  "isCookieConsentVisible b =
     try_catch
       (await (count b cookieConsentContainer) (\<lambda>n.
        await (if n > 0 then consent_loop b [0..<min n 5] else io_return False) (\<lambda>returned.
        if returned then io_return True
        else
          await (or_else (visible b consentAcceptButton) False) (\<lambda>v.
          if v then io_return True else io_return False))))
       (\<lambda>error. io_return False)"


record login_option =
  name :: string
  element :: locator

definition otherOptions :: "(string \<times> string) list" where
  \<open>otherOptions =
     [(''a:has-text(/facebook/i), button:has-text(/facebook/i)'', ''Facebook''),
      (''a:has-text(/twitter/i), button:has-text(/twitter/i)'', ''Twitter''),
      (''a:has-text(/github/i), button:has-text(/github/i)'', ''GitHub''),
      (''a:has-text(/microsoft/i), button:has-text(/microsoft/i)'', ''Microsoft''),
      (''form input[type="email"]'', ''Email Form'')]\<close>

text \<open>The loop over \<open>otherOptions\<close>, pushing onto \<open>options\<close>.\<close>

fun otherOptions_loop ::
  "'s browser \<Rightarrow> (string \<times> string) list \<Rightarrow> login_option list \<Rightarrow> ('s, login_option list) io" where
  "otherOptions_loop b [] options = io_return options"
| "otherOptions_loop b ((selector, nm) # rest) options =
     await (or_else (visible b (First (Css selector))) False) (\<lambda>v.
     otherOptions_loop b rest
       (if v then options @ [\<lparr>name = nm, element = First (Css selector)\<rparr>] else options))"

definition getVisibleLoginOptions :: "'s browser \<Rightarrow> ('s, login_option list) io" where
  "getVisibleLoginOptions b =
     await (or_else (visible b continueWithEmailButton) False) (\<lambda>v1.
     await (or_else (visible b continueWithGoogleButton) False) (\<lambda>v2.
     await (or_else (visible b continueWithAppleButton) False) (\<lambda>v3.
     otherOptions_loop b otherOptions
       ((if v1 then [\<lparr>name = ''Email'', element = continueWithEmailButton\<rparr>] else []) @
        (if v2 then [\<lparr>name = ''Google'', element = continueWithGoogleButton\<rparr>] else []) @
        (if v3 then [\<lparr>name = ''Apple'', element = continueWithAppleButton\<rparr>] else [])))))"


section \<open>Reference definitions and sample pages\<close>

text \<open>
  The elements of a list up to and including the first that satisfies \<open>p\<close>: what a loop
  that stops at the first hit has looked at.
\<close>

fun upto_first :: "('a \<Rightarrow> bool) \<Rightarrow> 'a list \<Rightarrow> 'a list" where
  "upto_first p [] = []"
| "upto_first p (x # xs) = (if p x then [x] else x # upto_first p xs)"

text \<open>
  The registry of login options in the words of the specification: a fixed list of
  display names, each with the candidate that finds it.
\<close>

definition login_registry :: "(string \<times> locator) list" where
  "login_registry =
     [(''Email'', continueWithEmailButton),
      (''Google'', continueWithGoogleButton),
      (''Apple'', continueWithAppleButton)] @
     map (\<lambda>(selector, nm). (nm, First (Css selector))) otherOptions"

definition registry_option :: "string \<times> locator \<Rightarrow> login_option" where
  "registry_option e = \<lparr>name = fst e, element = snd e\<rparr>"

text \<open>
  A page of fixed content whose state is its URL: \<open>cnt\<close> and \<open>vis\<close> answer the probes,
  and a click on a visible element navigates to \<open>href\<close> of it; a click on anything else
  times out.
\<close>

definition timeout :: js_error where
  "timeout = JsError ''TimeoutError'' ''Timeout 15000ms exceeded.''"

definition static_page ::
  "string \<Rightarrow> (locator \<Rightarrow> nat) \<Rightarrow> (locator \<Rightarrow> bool) \<Rightarrow> (locator \<Rightarrow> string) \<Rightarrow> string browser" where
  "static_page text cnt vis href =
     \<lparr>pw_screenshot = (\<lambda>s path. Inr ()),
      pw_innerText = (\<lambda>s. Inr text),
      pw_count = (\<lambda>s loc. Inr (cnt loc)),
      pw_isVisible = (\<lambda>s loc. Inr (vis loc)),
      pw_click = (\<lambda>s loc. if vis loc then Inr (href loc) else Inl timeout),
      pw_waitForLoadState = (\<lambda>s st. Inr ()),
      pw_waitForSelector = (\<lambda>s sel. Inr ()),
      pw_url = (\<lambda>s. s)\<rparr>"

text \<open>
  A page on which a probe answers \<open>true\<close> for the locators of \<open>vis\<close> and every other
  call of the browser rejects.
\<close>

definition rejecting_page :: "(locator \<Rightarrow> bool) \<Rightarrow> string browser" where
  "rejecting_page vis =
     \<lparr>pw_screenshot = (\<lambda>s path. Inl timeout),
      pw_innerText = (\<lambda>s. Inl timeout),
      pw_count = (\<lambda>s loc. Inl timeout),
      pw_isVisible = (\<lambda>s loc. if vis loc then Inr True else Inl timeout),
      pw_click = (\<lambda>s loc. Inl timeout),
      pw_waitForLoadState = (\<lambda>s st. Inl timeout),
      pw_waitForSelector = (\<lambda>s sel. Inl timeout),
      pw_url = (\<lambda>s. s)\<rparr>"

text \<open>A page with seven elements under \<open>loc\<close>, of which only the last is visible.\<close>

definition seven_matches :: "locator \<Rightarrow> string browser" where
  "seven_matches loc =
     static_page [] (\<lambda>l. if l = loc then 7 else 0) (\<lambda>l. l = Nth loc 6) (\<lambda>l. [])"

text \<open>The state a click leaves, and what a guarded click (\<open>click_or_warn\<close>) records.\<close>

definition after_click :: "'s browser \<Rightarrow> 's \<Rightarrow> locator \<Rightarrow> 's" where
  "after_click b s loc = (case pw_click b s loc of Inl e \<Rightarrow> s | Inr s' \<Rightarrow> s')"

definition click_events :: "'s browser \<Rightarrow> 's \<Rightarrow> locator \<Rightarrow> string \<Rightarrow> event list" where
  "click_events b s loc msg =
     Click loc #
     (case pw_click b s loc of
        Inl e \<Rightarrow> [Log Warn (msg @ '': '' @ err_message e)]
      | Inr s' \<Rightarrow> [])"

text \<open>The calls on the browser in a trace: everything but the log lines.\<close>

fun is_call :: "event \<Rightarrow> bool" where
  "is_call (Log lvl msg) = False"
| "is_call e = True"

definition calls :: "event list \<Rightarrow> event list" where
  "calls t = filter is_call t"

text \<open>
  The strategy sequence of the cookie-consent handler, in the words of the
  specification. Strategy A: the button with the data attribute, clicked if visible.
  Strategy B: the buttons matching the accessible name, the first clicked if there is
  any. Strategy C: each known banner container in turn, the accept-labelled button inside
  the first visible one clicked. The sequence ends at the first strategy that finds its
  target.
\<close>

fun strategy_C :: "'s browser \<Rightarrow> 's \<Rightarrow> string list \<Rightarrow> event list" where
  "strategy_C b s [] = []"
| "strategy_C b s (selector # rest) =
     IsVisible (First (Css selector)) #
     (if reports_visible b s (First (Css selector))
      then [Click (acceptButton_in (First (Css selector)))]
      else strategy_C b s rest)"

definition role_button_found :: "'s browser \<Rightarrow> 's \<Rightarrow> bool" where
  "role_button_found b s = (case pw_count b s buttonsByRole of Inl e \<Rightarrow> False | Inr n \<Rightarrow> 0 < n)"

definition strategy_sequence :: "'s browser \<Rightarrow> 's \<Rightarrow> event list" where
  "strategy_sequence b s =
     IsVisible dataAttrButton #
     (if reports_visible b s dataAttrButton then [Click dataAttrButton]
      else
        Count buttonsByRole #
        (if role_button_found b s then [Click (Nth buttonsByRole 0)]
         else strategy_C b s cookieBanners))"

text \<open>
  The handler as a whole: a screenshot, the probe of the page text, and the strategy
  sequence when the probe says there may be a banner. A failure of the screenshot or of
  the probe ends it.
\<close>

definition before_cookie_handling :: string where
  "before_cookie_handling = ''./ui/reports/screenshots/before-cookie-handling.png''"

definition handler_calls :: "'s browser \<Rightarrow> 's \<Rightarrow> event list" where
  "handler_calls b s =
     Screenshot before_cookie_handling #
     (case pw_screenshot b s before_cookie_handling of
        Inl e \<Rightarrow> []
      | Inr u \<Rightarrow>
          Evaluate #
          (case pw_innerText b s of
             Inl e \<Rightarrow> []
           | Inr innerText \<Rightarrow> if hasCookieBanner innerText then strategy_sequence b s else []))"


text \<open>
  A page whose elements are all visible but covered: every probe answers \<open>true\<close> and
  every click times out.
\<close>

definition covered_page :: "string browser" where
  "covered_page =
     \<lparr>pw_screenshot = (\<lambda>s path. Inr ()),
      pw_innerText = (\<lambda>s. Inr ''We use cookies''),
      pw_count = (\<lambda>s loc. Inr 1),
      pw_isVisible = (\<lambda>s loc. Inr True),
      pw_click = (\<lambda>s loc. Inl timeout),
      pw_waitForLoadState = (\<lambda>s st. Inr ()),
      pw_waitForSelector = (\<lambda>s sel. Inr ()),
      pw_url = (\<lambda>s. s)\<rparr>"

text \<open>A page on which every call of the browser rejects.\<close>

definition unresponsive_page :: "string browser" where
  "unresponsive_page =
     \<lparr>pw_screenshot = (\<lambda>s path. Inl timeout),
      pw_innerText = (\<lambda>s. Inl timeout),
      pw_count = (\<lambda>s loc. Inl timeout),
      pw_isVisible = (\<lambda>s loc. Inl timeout),
      pw_click = (\<lambda>s loc. Inl timeout),
      pw_waitForLoadState = (\<lambda>s st. Inl timeout),
      pw_waitForSelector = (\<lambda>s sel. Inl timeout),
      pw_url = (\<lambda>s. s)\<rparr>"


section \<open>Signature check\<close>



text \<open>Digests of 64 characters and infinitely many serialisations do exist together.\<close>

lemma digest_conditions_satisfiable:
  "\<exists>(H :: string \<Rightarrow> string \<Rightarrow> string) (J :: json \<Rightarrow> string).
     (\<forall>S t. length (H S t) = 64) \<and> infinite (range J)"
proof -
  let ?J = "\<lambda>j. case j of JStr s \<Rightarrow> s | _ \<Rightarrow> []"
  have "range ?J = (UNIV :: string set)"
  proof -
    have "x \<in> range ?J" for x :: string
      by (rule range_eqI [of _ _ "JStr x"]) simp
    then show ?thesis by blast
  qed
  then have "infinite (range ?J)"
    by (simp add: infinite_UNIV_listI)
  then show ?thesis
    by (intro exI [of _ "\<lambda>S t. replicate 64 CHR ''0''"] exI [of _ ?J]) simp
qed



section \<open>Webhook endpoints\<close>

lemma missing_header_rejected:
  "x_webhook_signature req = None \<Longrightarrow> signature_rejected H J S req"
  by (simp add: signature_rejected_def)

lemma unverified_header_rejected:
  "x_webhook_signature req = Some sg \<Longrightarrow> \<not> verifySignature H J S sg (req_body req) \<Longrightarrow>
   signature_rejected H J S req"
  by (simp add: signature_rejected_def)

text \<open>
  A request whose header is missing or does not verify gets 401 and the one warning;
  nothing of the handler proper runs. The health endpoint answers 200 whatever it is sent.
\<close>

lemma rejected_is_401:
  "signature_rejected H J S req \<Longrightarrow>
   post_test_results H J S req =
     ([Log Warn ''Invalid webhook signature''],
      Inr \<lparr>status = 401, res_json = JObj [(''error'', JStr ''Invalid signature'')]\<rparr>) \<and>
   post_ci_trigger H J S req =
     ([Log Warn ''Invalid webhook signature''],
      Inr \<lparr>status = 401, res_json = JObj [(''error'', JStr ''Invalid signature'')]\<rparr>)"
  by (simp add: post_test_results_def post_ci_trigger_def invalid_signature_def)

lemma health_is_200:
  "get_health req = ([], Inr \<lparr>status = 200, res_json = JObj [(''status'', JStr ''healthy'')]\<rparr>)"
  by (simp add: get_health_def)

text \<open>The signed body of the specification's scenario 3 gets 200.\<close>

lemma signed_scenario_body_is_200:
  "post_test_results H J S
     \<lparr>x_webhook_signature = Some (''sha256='' @ H S (J
        (JObj [(''testResults'', JObj [(''summary'', JStr ''5 passed'')]),
               (''buildId'', JStr ''42''), (''runId'', JStr ''7'')]))),
      req_body = JObj [(''testResults'', JObj [(''summary'', JStr ''5 passed'')]),
                       (''buildId'', JStr ''42''), (''runId'', JStr ''7'')]\<rparr> =
   ([Log Info ''Received test results webhook for build 42, run 7'',
     Log Info ''Test summary: 5 passed''],
    Inr \<lparr>status = 200, res_json = JObj [(''status'', JStr ''success'')]\<rparr>)"
  by (simp add: post_test_results_def signature_rejected_def verifySignature_def and_then_def
      logged_def interpolate_def success_def)

lemma signed_empty_body_ci_trigger_is_200:
  "post_ci_trigger H J S
     \<lparr>x_webhook_signature = Some (''sha256='' @ H S (J (JObj []))), req_body = JObj []\<rparr> =
   ([Log Info ''Received CI trigger webhook for undefined/undefined (undefined)'',
     Log Info ''Action: undefined''],
    Inr \<lparr>status = 200, res_json = JObj [(''status'', JStr ''success'')]\<rparr>)"
  by (simp add: post_ci_trigger_def signature_rejected_def verifySignature_def and_then_def
      logged_def interpolate_def success_def)

text \<open>
  C2. A request to \<open>POST /webhook/test-results\<close> whose signature verifies is to be answered
  with 200 and \<open>{status: "success"}\<close>. For the correctly signed body \<open>{}\<close> the handler
  sends no response: after its first log line it reads \<open>testResults.summary\<close> with
  \<open>testResults\<close> undefined and throws a TypeError.
\<close>

theorem post_test_results_throws_on_signed_empty_body:
  "post_test_results H J S
     \<lparr>x_webhook_signature = Some (''sha256='' @ H S (J (JObj []))), req_body = JObj []\<rparr> =
   ([Log Info ''Received test results webhook for build undefined, run undefined''],
    Inl (JsError ''TypeError''
      (''Cannot read properties of undefined (reading '' @ [CHR 0x27] @ ''summary'' @
       [CHR 0x27] @ '')'')))"
  by (simp add: post_test_results_def signature_rejected_def verifySignature_def and_then_def
      logged_def interpolate_def)


section \<open>Running the combinators\<close>

lemmas io_defs = io_return_def io_throw_def await_def try_catch_def or_else_def log_def

lemmas run_defs = final_state_def trace_def outcome_def




lemma or_else_visible:
  "or_else (visible b loc) False s = (s, [IsVisible loc], Inr (reports_visible b s loc))"
  by (cases "pw_isVisible b s loc") (auto simp: io_defs visible_def reports_visible_def)

lemma or_else_count:
  "or_else (count b loc) 0 s =
     (s, [Count loc], Inr (case pw_count b s loc of Inl e \<Rightarrow> 0 | Inr n \<Rightarrow> n))"
  by (cases "pw_count b s loc") (auto simp: io_defs count_def)

lemma click_or_warn_run:
  "click_or_warn b loc msg s = (after_click b s loc, click_events b s loc msg, Inr ())"
  by (cases "pw_click b s loc")
    (simp_all add: click_or_warn_def try_catch_def click_def log_def after_click_def
      click_events_def)

lemma calls_click_events: "calls (click_events b s loc msg) = [Click loc]"
  by (cases "pw_click b s loc") (simp_all add: calls_def click_events_def)

lemma upt_7: "[0..<7] = [0, 1, 2, 3, 4, 5, 6::nat]"
  by (simp add: upt_rec)

lemma upt_5: "[0..<5] = [0, 1, 2, 3, 4::nat]"
  by (simp add: upt_rec)


section \<open>Element resolution\<close>

lemma isVisible_loop_run:
  "isVisible_loop b loc ixs s =
     (s,
      map (\<lambda>i. IsVisible (Nth loc i)) (upto_first (\<lambda>i. reports_visible b s (Nth loc i)) ixs),
      Inr (\<exists>i \<in> set ixs. reports_visible b s (Nth loc i)))"
  by (induction ixs) (simp_all add: await_def or_else_visible io_return_def)

lemma isVisible_run:
  "isVisible b loc s =
     (let n = (case pw_count b s loc of Inl e \<Rightarrow> 0 | Inr n \<Rightarrow> n) in
      if n > 1 then
        (s,
         Count loc # map (\<lambda>i. IsVisible (Nth loc i))
           (upto_first (\<lambda>i. reports_visible b s (Nth loc i)) [0..<n]),
         Inr (\<exists>i \<in> set [0..<n]. reports_visible b s (Nth loc i)))
      else if n = 1 then (s, [Count loc, IsVisible loc], Inr (reports_visible b s loc))
      else (s, [Count loc], Inr False))"
  by (simp add: isVisible_def try_catch_def await_def or_else_count or_else_visible
      isVisible_loop_run io_return_def Let_def)

lemma isVisible_never_raises: "outcome (isVisible b loc s) \<noteq> Inl e"
  by (simp add: isVisible_run Let_def outcome_def)


lemma otherOptions_loop_run:
  "otherOptions_loop b opts acc s =
     (s, map (\<lambda>(selector, nm). IsVisible (First (Css selector))) opts,
      Inr (acc @ map registry_option
             (filter (\<lambda>e. reports_visible b s (snd e))
                (map (\<lambda>(selector, nm). (nm, First (Css selector))) opts))))"
  by (induction opts arbitrary: acc)
    (auto simp add: await_def or_else_visible io_return_def registry_option_def)

lemma getVisibleLoginOptions_run:
  "getVisibleLoginOptions b s =
     (s, map (\<lambda>e. IsVisible (snd e)) login_registry,
      Inr (map registry_option (filter (\<lambda>e. reports_visible b s (snd e)) login_registry)))"
  by (simp add: getVisibleLoginOptions_def await_def or_else_visible otherOptions_loop_run
      login_registry_def registry_option_def comp_def case_prod_unfold)

lemma consent_loop_run:
  "consent_loop b ixs s =
     (s,
      map (\<lambda>i. IsVisible (Nth cookieConsentContainer i))
        (upto_first (\<lambda>i. reports_visible b s (Nth cookieConsentContainer i)) ixs),
      Inr (\<exists>i \<in> set ixs. reports_visible b s (Nth cookieConsentContainer i)))"
  by (induction ixs) (simp_all add: await_def try_catch_def or_else_visible io_return_def)

lemma isCookieConsentVisible_run:
  "pw_count b s cookieConsentContainer = Inr n \<Longrightarrow>
   isCookieConsentVisible b s =
     (s,
      Count cookieConsentContainer #
        map (\<lambda>i. IsVisible (Nth cookieConsentContainer i))
          (upto_first (\<lambda>i. reports_visible b s (Nth cookieConsentContainer i)) [0..<min n 5]) @
        (if \<exists>i \<in> set [0..<min n 5]. reports_visible b s (Nth cookieConsentContainer i) then []
         else [IsVisible consentAcceptButton]),
      Inr ((\<exists>i \<in> set [0..<min n 5]. reports_visible b s (Nth cookieConsentContainer i)) \<or>
           reports_visible b s consentAcceptButton))"
  by (cases "n = 0")
    (simp_all add: isCookieConsentVisible_def try_catch_def await_def count_def consent_loop_run
      or_else_visible io_return_def)

lemma isCookieConsentVisible_count_error:
  "pw_count b s cookieConsentContainer = Inl e \<Longrightarrow>
   isCookieConsentVisible b s = (s, [Count cookieConsentContainer], Inr False)"
  by (simp add: isCookieConsentVisible_def try_catch_def await_def count_def io_return_def)

lemma isCookieConsentVisible_never_raises: "outcome (isCookieConsentVisible b s) \<noteq> Inl e"
  by (cases "pw_count b s cookieConsentContainer")
    (simp_all add: isCookieConsentVisible_count_error isCookieConsentVisible_run outcome_def)



text \<open>
  C7, as the code has it. When a locator matches several elements (\<open>count\<close> answers
  \<open>n > 1\<close>), both resolution routines probe the matching elements one by one, in order,
  stop at the first that reports visible, and never reject. \<open>isCookieConsentVisible\<close>
  looks at the first \<open>min n 5\<close> of them only (and then at the accept button);
  \<open>BasePage.isVisible\<close> looks at all \<open>n\<close>, with no cap.
\<close>

theorem multi_match_probing:
  "(pw_count b s loc = Inr n \<and> 1 < n \<longrightarrow>
      isVisible b loc s =
        (s,
         Count loc # map (\<lambda>i. IsVisible (Nth loc i))
           (upto_first (\<lambda>i. reports_visible b s (Nth loc i)) [0..<n]),
         Inr (\<exists>i \<in> set [0..<n]. reports_visible b s (Nth loc i)))) \<and>
   (pw_count b s cookieConsentContainer = Inr n \<and> 1 < n \<longrightarrow>
      isCookieConsentVisible b s =
        (s,
         Count cookieConsentContainer #
           map (\<lambda>i. IsVisible (Nth cookieConsentContainer i))
             (upto_first (\<lambda>i. reports_visible b s (Nth cookieConsentContainer i))
                [0..<min n 5]) @
           (if \<exists>i \<in> set [0..<min n 5]. reports_visible b s (Nth cookieConsentContainer i)
            then [] else [IsVisible consentAcceptButton]),
         Inr ((\<exists>i \<in> set [0..<min n 5]. reports_visible b s (Nth cookieConsentContainer i)) \<or>
              reports_visible b s consentAcceptButton))) \<and>
   outcome (isVisible b loc s) \<noteq> Inl e \<and>
   outcome (isCookieConsentVisible b s) \<noteq> Inl e"
proof -
  have "pw_count b s loc = Inr n \<and> 1 < n \<longrightarrow>
      isVisible b loc s =
        (s,
         Count loc # map (\<lambda>i. IsVisible (Nth loc i))
           (upto_first (\<lambda>i. reports_visible b s (Nth loc i)) [0..<n]),
         Inr (\<exists>i \<in> set [0..<n]. reports_visible b s (Nth loc i)))"
    by (simp add: isVisible_run)
  then show ?thesis
    by (simp add: isCookieConsentVisible_run isCookieConsentVisible_never_raises
        isVisible_never_raises)
qed

theorem multi_match_probing_witness:
  "isVisible (seven_matches cookieConsentContainer) cookieConsentContainer [] =
     ([],
      Count cookieConsentContainer #
        map (\<lambda>i. IsVisible (Nth cookieConsentContainer i)) [0, 1, 2, 3, 4, 5, 6],
      Inr True) \<and>
   isCookieConsentVisible (seven_matches cookieConsentContainer) [] =
     ([],
      Count cookieConsentContainer #
        map (\<lambda>i. IsVisible (Nth cookieConsentContainer i)) [0, 1, 2, 3, 4] @
        [IsVisible consentAcceptButton],
      Inr False)"
proof -
  have c: "pw_count (seven_matches cookieConsentContainer) [] cookieConsentContainer = Inr 7 \<and>
           (1::nat) < 7"
    by (simp add: seven_matches_def static_page_def)
  have v: "reports_visible (seven_matches cookieConsentContainer) [] l \<longleftrightarrow>
           l = Nth cookieConsentContainer 6" for l
    by (auto simp add: seven_matches_def static_page_def reports_visible_def)
  have ne: "consentAcceptButton \<noteq> Nth cookieConsentContainer 6"
    by (simp add: consentAcceptButton_def)
  from c multi_match_probing [of "seven_matches cookieConsentContainer" "[]" cookieConsentContainer 7]
  show ?thesis by (simp add: v ne upt_7 upt_5)
qed

text \<open>
  C7 as stated bounds the probing to the first five matching elements. \<open>BasePage.isVisible\<close>
  has no such bound: on a page where a locator matches seven elements and only the last is
  visible, it probes all seven and answers \<open>true\<close>.
\<close>

theorem isVisible_probes_past_five:
  "isVisible (seven_matches (Css ''a'')) (Css ''a'') [] =
     ([],
      [Count (Css ''a''),
       IsVisible (Nth (Css ''a'') 0), IsVisible (Nth (Css ''a'') 1),
       IsVisible (Nth (Css ''a'') 2), IsVisible (Nth (Css ''a'') 3),
       IsVisible (Nth (Css ''a'') 4), IsVisible (Nth (Css ''a'') 5),
       IsVisible (Nth (Css ''a'') 6)],
      Inr True)"
  by (simp add: isVisible_run seven_matches_def static_page_def reports_visible_def upt_7)


section \<open>Login options\<close>



text \<open>
  C9. \<open>getVisibleLoginOptions\<close> does not change the page, so a second call right after the
  first runs on the same state and returns the same; what it returns is the registry,
  in its fixed order, filtered by which candidates report visible. Two page states that
  agree on that for the candidates of the registry therefore yield the same options.
\<close>

theorem login_options_deterministic:
  "final_state (getVisibleLoginOptions b s) = s \<and>
   getVisibleLoginOptions b (final_state (getVisibleLoginOptions b s)) =
     getVisibleLoginOptions b s \<and>
   outcome (getVisibleLoginOptions b s) =
     Inr (map registry_option (filter (\<lambda>e. reports_visible b s (snd e)) login_registry)) \<and>
   ((\<forall>e \<in> set login_registry. reports_visible b s (snd e) = reports_visible b' s' (snd e)) \<longrightarrow>
      outcome (getVisibleLoginOptions b s) = outcome (getVisibleLoginOptions b' s'))"
proof -
  have "filter (\<lambda>e. reports_visible b s (snd e)) login_registry =
        filter (\<lambda>e. reports_visible b' s' (snd e)) login_registry"
    if "\<forall>e \<in> set login_registry. reports_visible b s (snd e) = reports_visible b' s' (snd e)"
    using that by (intro filter_cong) auto
  then show ?thesis
    by (auto simp add: getVisibleLoginOptions_run run_defs)
qed

theorem login_options_deterministic_witness:
  "outcome (getVisibleLoginOptions
      (static_page [] (\<lambda>l. 1) (\<lambda>l. l = continueWithGoogleButton) (\<lambda>l. [])) []) =
   outcome (getVisibleLoginOptions (rejecting_page (\<lambda>l. l = continueWithGoogleButton)) [])"
proof -
  let ?p = "static_page [] (\<lambda>l. 1) (\<lambda>l. l = continueWithGoogleButton) (\<lambda>l. [])"
  let ?q = "rejecting_page (\<lambda>l. l = continueWithGoogleButton)"
  have "\<forall>e \<in> set login_registry. reports_visible ?p [] (snd e) = reports_visible ?q [] (snd e)"
    by (simp add: reports_visible_def static_page_def rejecting_page_def)
  with login_options_deterministic [of ?p "[]" ?q "[]"] show ?thesis by blast
qed

section \<open>Cookie-consent handler\<close>

lemma method1_run:
  "method1 b s =
     (if reports_visible b s dataAttrButton
      then (after_click b s dataAttrButton,
            [IsVisible dataAttrButton, Log Info ''Found cookie accept button with data attribute''] @
              click_events b s dataAttrButton ''Failed to click button with data attribute'',
            Inr True)
      else (s, [IsVisible dataAttrButton], Inr False))"
  by (simp add: method1_def await_def or_else_visible log_def click_or_warn_run io_return_def)

lemma try_method1: "try_catch (method1 b) h s = method1 b s"
  by (simp add: method1_run try_catch_def)

lemma method2_run:
  "try_catch (method2 b) h s =
     (case pw_count b s buttonsByRole of
        Inl e \<Rightarrow> (case h e s of (s2, t2, r) \<Rightarrow> (s2, Count buttonsByRole # t2, r))
      | Inr n \<Rightarrow>
          if 0 < n
          then (after_click b s (Nth buttonsByRole 0),
                [Count buttonsByRole,
                 Log Info (''Found '' @ show_nat n @ '' possible cookie consent buttons'')] @
                  click_events b s (Nth buttonsByRole 0) ''Failed to click button by role'',
                Inr True)
          else (s, [Count buttonsByRole], Inr False))"
  by (cases "pw_count b s buttonsByRole")
    (simp_all add: method2_def try_catch_def await_def count_def log_def click_or_warn_run io_return_def)

lemma method3_outcome:
  "outcome (method3 b sels s) = Inr (\<exists>sel \<in> set sels. reports_visible b s (First (Css sel)))"
  by (induction sels)
    (simp_all add: await_def or_else_visible log_def click_or_warn_run io_return_def outcome_def
      case_prod_unfold)

lemma method3_calls: "calls (trace (method3 b sels s)) = strategy_C b s sels"
  by (induction sels)
    (simp_all add: await_def or_else_visible log_def click_or_warn_run io_return_def trace_def
      calls_def calls_click_events [unfolded calls_def] case_prod_unfold)



lemma try_method3: "try_catch (method3 b sels) h s = method3 b sels s"
  using method3_outcome [of b sels s]
  by (cases "method3 b sels s") (auto simp: try_catch_def outcome_def)

lemma acceptCookies_outcome:
  "outcome (acceptCookies b s) =
     (case pw_screenshot b s before_cookie_handling of
        Inl e \<Rightarrow> Inl e
      | Inr u \<Rightarrow> (case pw_innerText b s of Inl e \<Rightarrow> Inl e | Inr innerText \<Rightarrow> Inr ()))"
  using method3_outcome [of b cookieBanners s]
  by (cases "method3 b cookieBanners s")
     (auto simp add: acceptCookies_def await_def try_method1 method1_run method2_run try_method3
      io_return_def log_def screenshot_def evaluate_hasCookieBanner_def before_cookie_handling_def
      outcome_def split: sum.splits)

lemma acceptCookies_calls: "calls (trace (acceptCookies b s)) = handler_calls b s"
  using method3_outcome [of b cookieBanners s] method3_calls [of b cookieBanners s]
  by (cases "method3 b cookieBanners s")
     (auto simp add: acceptCookies_def await_def try_method1 method1_run method2_run try_method3
      io_return_def log_def screenshot_def evaluate_hasCookieBanner_def before_cookie_handling_def
      outcome_def trace_def handler_calls_def strategy_sequence_def role_button_found_def
      calls_def calls_click_events [unfolded calls_def] split: sum.splits)

lemma lower_Welcome: "toLowerCase ''Welcome'' = ''welcome''"
  by code_simp

lemma lower_Privacy_Policy: "toLowerCase ''Privacy Policy'' = ''privacy policy''"
  by code_simp

text \<open>
  C3, as the code has it. After a screenshot, the handler probes the page text; a failure
  of either ends it with that error. If the text, put in lower case, contains none of
  \<open>cookie\<close>, \<open>consent\<close>, \<open>privacy\<close>, it returns without attempting any strategy. Otherwise
  its calls on the browser are exactly the strategy sequence A, B, C, ending at the first
  strategy that finds its target, and it returns normally.
\<close>

theorem acceptCookies_strategy_sequence:
  "calls (trace (acceptCookies b s)) = handler_calls b s \<and>
   outcome (acceptCookies b s) =
     (case pw_screenshot b s before_cookie_handling of
        Inl e \<Rightarrow> Inl e
      | Inr u \<Rightarrow> (case pw_innerText b s of Inl e \<Rightarrow> Inl e | Inr innerText \<Rightarrow> Inr ())) \<and>
   (pw_screenshot b s before_cookie_handling = Inr () \<and> pw_innerText b s = Inr innerText \<longrightarrow>
      calls (trace (acceptCookies b s)) =
        [Screenshot before_cookie_handling, Evaluate] @
        (if str_includes (toLowerCase innerText) ''cookie'' \<or>
            str_includes (toLowerCase innerText) ''consent'' \<or>
            str_includes (toLowerCase innerText) ''privacy''
         then strategy_sequence b s else []))"
  by (simp add: acceptCookies_calls acceptCookies_outcome handler_calls_def hasCookieBanner_def)

theorem acceptCookies_strategy_sequence_witness:
  "calls (trace (acceptCookies (static_page ''Welcome'' (\<lambda>l. 2) (\<lambda>l. True) (\<lambda>l. [])) [])) =
     [Screenshot before_cookie_handling, Evaluate] \<and>
   calls (trace (acceptCookies (static_page ''Privacy Policy'' (\<lambda>l. 2) (\<lambda>l. l \<noteq> dataAttrButton) (\<lambda>l. [])) [])) =
     [Screenshot before_cookie_handling, Evaluate, IsVisible dataAttrButton, Count buttonsByRole,
      Click (Nth buttonsByRole 0)]"
proof -
  let ?p = "static_page ''Welcome'' (\<lambda>l. 2) (\<lambda>l. True) (\<lambda>l. [])"
  let ?q = "static_page ''Privacy Policy'' (\<lambda>l. 2) (\<lambda>l. l \<noteq> dataAttrButton) (\<lambda>l. [])"
  have p: "pw_screenshot ?p [] before_cookie_handling = Inr () \<and> pw_innerText ?p [] = Inr ''Welcome''"
    by (simp add: static_page_def)
  have q: "pw_screenshot ?q [] before_cookie_handling = Inr () \<and> pw_innerText ?q [] = Inr ''Privacy Policy''"
    by (simp add: static_page_def)
  have sq: "strategy_sequence ?q [] =
      [IsVisible dataAttrButton, Count buttonsByRole, Click (Nth buttonsByRole 0)]"
    by (simp add: strategy_sequence_def reports_visible_def role_button_found_def static_page_def)
  from p acceptCookies_strategy_sequence [of ?p "[]" "''Welcome''"]
  have "calls (trace (acceptCookies ?p [])) =
      [Screenshot before_cookie_handling, Evaluate] @
      (if str_includes (toLowerCase ''Welcome'') ''cookie'' \<or>
          str_includes (toLowerCase ''Welcome'') ''consent'' \<or>
          str_includes (toLowerCase ''Welcome'') ''privacy''
       then strategy_sequence ?p [] else [])"
    by blast
  then have a: "calls (trace (acceptCookies ?p [])) = [Screenshot before_cookie_handling, Evaluate]"
    by (simp add: lower_Welcome)
  from q acceptCookies_strategy_sequence [of ?q "[]" "''Privacy Policy''"]
  have "calls (trace (acceptCookies ?q [])) =
      [Screenshot before_cookie_handling, Evaluate] @
      (if str_includes (toLowerCase ''Privacy Policy'') ''cookie'' \<or>
          str_includes (toLowerCase ''Privacy Policy'') ''consent'' \<or>
          str_includes (toLowerCase ''Privacy Policy'') ''privacy''
       then strategy_sequence ?q [] else [])"
    by blast
  then have b: "calls (trace (acceptCookies ?q [])) =
      [Screenshot before_cookie_handling, Evaluate, IsVisible dataAttrButton, Count buttonsByRole,
       Click (Nth buttonsByRole 0)]"
    by (simp add: lower_Privacy_Policy sq)
  from a b show ?thesis by blast
qed

text \<open>
  C3 as stated lets the handler stop when the text contains none of the three substrings.
  The text \<open>Privacy Policy\<close> contains none of them, and yet the handler goes through all
  three strategies: the probe compares in lower case.
\<close>

theorem acceptCookies_probe_ignores_case:
  "\<not> str_includes ''Privacy Policy'' ''cookie'' \<and>
   \<not> str_includes ''Privacy Policy'' ''consent'' \<and>
   \<not> str_includes ''Privacy Policy'' ''privacy'' \<and>
   calls (trace (acceptCookies (static_page ''Privacy Policy'' (\<lambda>l. 0) (\<lambda>l. False) (\<lambda>l. [])) [])) =
     [Screenshot before_cookie_handling, Evaluate, IsVisible dataAttrButton, Count buttonsByRole,
      IsVisible (First (Css ''.cookie-banner'')),
      IsVisible (First (Css ''.cookie-consent'')),
      IsVisible (First (Css ''.cookie-notice'')),
      IsVisible (First (Css ''.gdpr-banner'')),
      IsVisible (First (Css ''.cky-consent-container''))]"
  by (simp add: acceptCookies_calls handler_calls_def hasCookieBanner_def lower_Privacy_Policy
      strategy_sequence_def reports_visible_def role_button_found_def static_page_def
      cookieBanners_def)





text \<open>
  Called on its own, \<open>acceptCookies\<close> does pass a failure of the probe on to its caller;
  it is the wrapper \<open>handleCookieConsent\<close> that absorbs it.
\<close>

lemma acceptCookies_propagates_probe_error:
  "pw_screenshot b s before_cookie_handling = Inr () \<Longrightarrow> pw_innerText b s = Inl e \<Longrightarrow>
   outcome (acceptCookies b s) = Inl e"
  by (simp add: acceptCookies_outcome)




section \<open>Navigation clicks\<close>

lemma waitForPageLoad_outcome:
  "outcome (waitForPageLoad b s) = pw_waitForLoadState b s ''load''"
  by (cases "pw_waitForLoadState b s ''load''"; cases "pw_waitForSelector b s ''body''";
      cases "pw_waitForSelector b s ''nav''"; cases "pw_waitForSelector b s ''header''")
    (simp_all add: waitForPageLoad_def io_defs waitForLoadState_def waitForSelector_def outcome_def)

lemma waitForPageLoad_final_state: "final_state (waitForPageLoad b s) = s"
  by (cases "pw_waitForLoadState b s ''load''"; cases "pw_waitForSelector b s ''body''";
      cases "pw_waitForSelector b s ''nav''"; cases "pw_waitForSelector b s ''header''")
    (simp_all add: waitForPageLoad_def io_defs waitForLoadState_def waitForSelector_def final_state_def)

lemma click_first_visible_quiet:
  "\<forall>l \<in> set ls. \<not> reports_visible b s l \<Longrightarrow>
   click_first_visible b ls s = (s, map IsVisible ls, Inr False)"
  by (induction ls) (simp_all add: await_def or_else_visible io_return_def)

lemma clickContinueWithEmail_absent:
  "\<not> reports_visible b s continueWithEmailButton \<Longrightarrow>
   \<forall>selector \<in> set alternativeSelectors. \<not> reports_visible b s (First (Css selector)) \<Longrightarrow>
   clickContinueWithEmail b s =
     (s,
      IsVisible continueWithEmailButton #
        map (\<lambda>selector. IsVisible (First (Css selector))) alternativeSelectors @
        [Log Err ''Error in clickContinueWithEmail: Could not find email login option''],
      Inl (JsError ''Error'' ''Could not find email login option''))"
  by (simp add: clickContinueWithEmail_def try_catch_def await_def or_else_visible
      click_first_visible_quiet io_throw_def log_def comp_def)

text \<open>
  C5, as the code has it. When neither the email button nor any of the alternative
  selectors reports visible, \<open>clickContinueWithEmail\<close> logs and raises a plain \<open>Error\<close>
  with the fixed message \<open>Could not find email login option\<close>, which names no candidate.
  \<open>clickEnterPlatform\<close>, on a page object as its constructor builds it, does not probe: it
  clicks the button, and a failure of that click reaches the caller unchanged.
\<close>

theorem absent_affordance_errors:
  \<open>(\<not> reports_visible b s continueWithEmailButton \<and>
    (\<forall>selector \<in> set alternativeSelectors. \<not> reports_visible b s (First (Css selector))) \<longrightarrow>
      clickContinueWithEmail b s =
        (s,
         IsVisible continueWithEmailButton #
           map (\<lambda>selector. IsVisible (First (Css selector))) alternativeSelectors @
           [Log Err ''Error in clickContinueWithEmail: Could not find email login option''],
         Inl (JsError ''Error'' ''Could not find email login option''))) \<and>
   (pw_click b s (First (Css
        ''a:has-text("Enter Platform"), button:has-text("Enter Platform"), a:has-text("Enter"), button:has-text("Enter")'')) = Inl e \<longrightarrow>
      clickEnterPlatform b HomePage s =
        (s,
         [Click (First (Css
           ''a:has-text("Enter Platform"), button:has-text("Enter Platform"), a:has-text("Enter"), button:has-text("Enter")''))],
         Inl e))\<close>
  by (simp add: clickContinueWithEmail_absent clickEnterPlatform_def HomePage_def await_def click_def)

theorem absent_affordance_errors_witness:
  "outcome (clickContinueWithEmail (static_page [] (\<lambda>l. 0) (\<lambda>l. False) (\<lambda>l. [])) []) =
     Inl (JsError ''Error'' ''Could not find email login option'') \<and>
   outcome (clickEnterPlatform (static_page [] (\<lambda>l. 0) (\<lambda>l. False) (\<lambda>l. [])) HomePage []) =
     Inl timeout"
proof -
  let ?p = "static_page [] (\<lambda>l. 0) (\<lambda>l. False) (\<lambda>l. [])"
  have v: "\<not> reports_visible ?p [] l" for l
    by (simp add: reports_visible_def static_page_def)
  have c: "pw_click ?p [] l = Inl timeout" for l
    by (simp add: static_page_def)
  from v c absent_affordance_errors [of ?p "[]" timeout] show ?thesis by (simp add: outcome_def)
qed

text \<open>
  C5 as stated has both operations raise a typed \<open>AffordanceNotFound\<close> carrying the
  candidate names. On a page where nothing is visible and every click times out, the one
  raises an \<open>Error\<close>, the other the \<open>TimeoutError\<close> of the click.
\<close>

theorem absent_affordance_is_untyped:
  "outcome (clickContinueWithEmail unresponsive_page ''https://platform.angelcard.us/'') =
     Inl (JsError ''Error'' ''Could not find email login option'') \<and>
   outcome (clickEnterPlatform unresponsive_page HomePage ''https://www.angelcard.us/'') =
     Inl (JsError ''TimeoutError'' ''Timeout 15000ms exceeded.'')"
  by (simp add: clickContinueWithEmail_absent clickEnterPlatform_def HomePage_def await_def click_def
      reports_visible_def unresponsive_page_def outcome_def timeout_def)

text \<open>
  C10, as the code has it. \<open>clickAngelCardLogo\<close> raises its own error when the logo does
  not report visible; with a visible logo it clicks it and waits for the load event, and a
  failure of either is passed on to the caller; when both succeed it returns whether the
  URL of the page it landed on ends in \<open>angelcard.us\<close> or \<open>angelcard.us/\<close>.
\<close>

theorem clickAngelCardLogo_outcome:
  "outcome (clickAngelCardLogo b this s) =
     (if \<not> reports_visible b s (angelCardLogo this)
      then Inl (JsError ''Error'' ''AngelCard logo is not visible on the page'')
      else
        (case pw_click b s (angelCardLogo this) of
           Inl e \<Rightarrow> Inl e
         | Inr s' \<Rightarrow>
             (case pw_waitForLoadState b s' ''load'' of
                Inl e \<Rightarrow> Inl e
              | Inr u \<Rightarrow>
                  Inr (endsWith (pw_url b s') ''angelcard.us'' \<or>
                       endsWith (pw_url b s') ''angelcard.us/''))))"
proof (cases "reports_visible b s (angelCardLogo this)")
  case False
  then show ?thesis
    by (simp add: clickAngelCardLogo_def await_def or_else_visible io_throw_def outcome_def)
next
  case True
  show ?thesis
  proof (cases "pw_click b s (angelCardLogo this)")
    case (Inl e)
    with True show ?thesis
      by (simp add: clickAngelCardLogo_def await_def or_else_visible click_def outcome_def)
  next
    case (Inr s')
    obtain s2 t2 r2 where w: "waitForPageLoad b s' = (s2, t2, r2)"
      by (cases "waitForPageLoad b s'") auto
    from w waitForPageLoad_outcome [of b s'] waitForPageLoad_final_state [of b s']
    have r2: "r2 = pw_waitForLoadState b s' ''load''" and s2: "s2 = s'"
      by (simp_all add: run_defs)
    from True Inr w r2 s2 show ?thesis
      by (cases "pw_waitForLoadState b s' ''load''")
        (simp_all add: clickAngelCardLogo_def await_def or_else_visible click_def outcome_def
          url_def io_return_def matches_root_optional_slash_def matches_root_slash_def)
  qed
qed

theorem clickAngelCardLogo_outcome_witness:
  "outcome (clickAngelCardLogo
      (static_page [] (\<lambda>l. 1) (\<lambda>l. True) (\<lambda>l. ''https://www.angelcard.us/''))
      HomePage ''https://www.angelcard.us/public-offer'') = Inr True \<and>
   outcome (clickAngelCardLogo
      (static_page [] (\<lambda>l. 1) (\<lambda>l. True) (\<lambda>l. ''https://www.angelcard.us/public-offer''))
      HomePage ''https://www.angelcard.us/public-offer'') = Inr False \<and>
   outcome (clickAngelCardLogo
      (static_page [] (\<lambda>l. 1) (\<lambda>l. False) (\<lambda>l. ''https://www.angelcard.us/''))
      HomePage ''https://www.angelcard.us/public-offer'') =
     Inl (JsError ''Error'' ''AngelCard logo is not visible on the page'')"
  using clickAngelCardLogo_outcome [of "static_page [] (\<lambda>l. 1) (\<lambda>l. True) (\<lambda>l. ''https://www.angelcard.us/'')"
        HomePage "''https://www.angelcard.us/public-offer''"]
    clickAngelCardLogo_outcome [of "static_page [] (\<lambda>l. 1) (\<lambda>l. True) (\<lambda>l. ''https://www.angelcard.us/public-offer'')"
        HomePage "''https://www.angelcard.us/public-offer''"]
    clickAngelCardLogo_outcome [of "static_page [] (\<lambda>l. 1) (\<lambda>l. False) (\<lambda>l. ''https://www.angelcard.us/'')"
        HomePage "''https://www.angelcard.us/public-offer''"]
  by (simp add: static_page_def reports_visible_def endsWith_def)

text \<open>
  C10 as stated has an error raised only when the logo is not visible. On a page whose
  logo is visible but covered, the click times out and \<open>clickAngelCardLogo\<close> raises that
  timeout.
\<close>

theorem clickAngelCardLogo_visible_logo_raises:
  "reports_visible covered_page ''https://www.angelcard.us/public-offer'' (angelCardLogo HomePage) \<and>
   outcome (clickAngelCardLogo covered_page HomePage ''https://www.angelcard.us/public-offer'') =
     Inl (JsError ''TimeoutError'' ''Timeout 15000ms exceeded.'')"
  by (simp add: clickAngelCardLogo_def await_def or_else_visible click_def outcome_def
      reports_visible_def covered_page_def timeout_def)

end
